theory Spec2Isabelle
  imports
    Complex_Main
    "HOL-Library.AList"
    "HOL-Library.Char_ord"
    "HOL-Library.List_Lexorder"
    "HOL-Library.Multiset"
    "HOL-Library.Sublist"
begin

section \<open>Python values and the builtins the editors rely on\<close>

text \<open>
  The two editors (\<^verbatim>\<open>monster_manager.py\<close>, \<^verbatim>\<open>advanced_item_editor.py\<close>) work on
  JSON objects loaded into Python dicts.  A field value is null, a boolean, an integer,
  a float, a string or a list of strings.  A float is represented by the rational number
  it denotes (NaN and the infinities are not values of this type).  Strings are lists of
  8-bit characters; the case and character-class functions below are those of Python on
  ASCII text.
\<close>

datatype pyerr = ValueError | TypeError | AttributeError | KeyError

datatype pyval =
    PNone
  | PBool bool
  | PInt int
  | PFloat rat
  | PStr string
  | PList "string list"

text \<open>A dict keeps its insertion order: an association list with distinct keys.\<close>

type_synonym pydict = "(string \<times> pyval) list"

text \<open>
  Builtins whose result depends on floating-point arithmetic or on Python's \<^verbatim>\<open>repr\<close>
  are parameters of the model:
  \<^item> \<open>float_of_str s\<close> is \<^verbatim>\<open>float(s)\<close> for a string, \<open>None\<close> where it raises ValueError;
  \<^item> \<open>repr_of v\<close> is \<^verbatim>\<open>str(v)\<close> for a value that is not a string;
  \<^item> \<open>float_add x y\<close> and \<open>float_mul x y\<close> are the float sum \<^verbatim>\<open>x + y\<close> and product
    \<^verbatim>\<open>x * y\<close>, rounded as the machine rounds them.
\<close>

record pybuiltins =
  float_of_str :: "string \<Rightarrow> rat option"
  repr_of :: "pyval \<Rightarrow> string"
  float_add :: "rat \<Rightarrow> rat \<Rightarrow> rat"
  float_mul :: "rat \<Rightarrow> rat \<Rightarrow> rat"

subsection \<open>Strings\<close>

definition upper_chars :: string where
  "upper_chars = ''ABCDEFGHIJKLMNOPQRSTUVWXYZ''"

definition lower_chars :: string where
  "lower_chars = ''abcdefghijklmnopqrstuvwxyz''"

definition digit_chars :: string where
  "digit_chars = ''0123456789''"

definition lower_char :: "char \<Rightarrow> char" where
  "lower_char c = (case map_of (zip upper_chars lower_chars) c of None \<Rightarrow> c | Some d \<Rightarrow> d)"

text \<open>\<^verbatim>\<open>s.lower()\<close>\<close>

definition py_lower :: "string \<Rightarrow> string" where
  "py_lower s = map lower_char s"

text \<open>Whitespace as \<^verbatim>\<open>str.isspace\<close> and the regular expression class \<^verbatim>\<open>\s\<close> see it.\<close>

definition py_isspace :: "char \<Rightarrow> bool" where
  "py_isspace c \<longleftrightarrow>
     c \<in> set [CHR '' '', CHR 0x09, CHR 0x0A, CHR 0x0B, CHR 0x0C, CHR 0x0D,
               CHR 0x1C, CHR 0x1D, CHR 0x1E, CHR 0x1F]"

text \<open>\<^verbatim>\<open>s.strip()\<close>\<close>

definition py_strip :: "string \<Rightarrow> string" where
  "py_strip s = rev (dropWhile py_isspace (rev (dropWhile py_isspace s)))"

text \<open>\<^verbatim>\<open>s.split(sep)\<close> for a one-character separator; \<open>cur\<close> is the piece being read.\<close>

fun split_acc :: "char \<Rightarrow> string \<Rightarrow> string \<Rightarrow> string list" where
  "split_acc sep cur [] = [cur]"
| "split_acc sep cur (c # cs) =
     (if c = sep then cur # split_acc sep [] cs else split_acc sep (cur @ [c]) cs)"

definition py_split :: "char \<Rightarrow> string \<Rightarrow> string list" where
  "py_split sep s = split_acc sep [] s"

text \<open>\<^verbatim>\<open>q in t\<close> for two strings: \<open>q\<close> occurs in \<open>t\<close> as a contiguous piece.\<close>

fun str_contains :: "string \<Rightarrow> string \<Rightarrow> bool" where
  "str_contains q [] = (q = [])"
| "str_contains q (c # cs) = (prefix q (c # cs) \<or> str_contains q cs)"

text \<open>The regular expression class \<^verbatim>\<open>\w\<close>.\<close>

definition is_word_char :: "char \<Rightarrow> bool" where
  "is_word_char c \<longleftrightarrow> c \<in> set (upper_chars @ lower_chars @ digit_chars @ ''_'')"

subsection \<open>Numbers\<close>

text \<open>The number a value stands for in a comparison; a boolean is an integer in Python.\<close>

fun py_num :: "pyval \<Rightarrow> rat option" where
  "py_num (PInt i) = Some (of_int i)"
| "py_num (PFloat r) = Some r"
| "py_num (PBool b) = Some (if b then 1 else 0)"
| "py_num _ = None"

text \<open>\<^verbatim>\<open>not v\<close>\<close>

fun py_falsy :: "pyval \<Rightarrow> bool" where
  "py_falsy PNone = True"
| "py_falsy (PBool b) = (\<not> b)"
| "py_falsy (PInt i) = (i = 0)"
| "py_falsy (PFloat r) = (r = 0)"
| "py_falsy (PStr s) = (s = [])"
| "py_falsy (PList xs) = (xs = [])"

text \<open>\<^verbatim>\<open>a == b\<close>: numbers compare by value across int, float and bool.\<close>

definition py_eq :: "pyval \<Rightarrow> pyval \<Rightarrow> bool" where
  "py_eq a b =
     (case (py_num a, py_num b) of
        (Some x, Some y) \<Rightarrow> x = y
      | (None, None) \<Rightarrow> a = b
      | _ \<Rightarrow> False)"

text \<open>Decimal digits, with the single underscores Python allows between them.\<close>

definition digit_val :: "char \<Rightarrow> nat option" where
  "digit_val c = map_of (zip digit_chars [0 ..< 10]) c"

fun digits_val :: "nat \<Rightarrow> string \<Rightarrow> nat option" where
  "digits_val acc [] = Some acc"
| "digits_val acc (c # cs) =
     (case digit_val c of None \<Rightarrow> None | Some d \<Rightarrow> digits_val (10 * acc + d) cs)"

definition parse_nat :: "string \<Rightarrow> nat option" where
  "parse_nat s =
     (let groups = py_split (CHR ''_'') s
      in if [] \<in> set groups then None else digits_val 0 (concat groups))"

text \<open>\<^verbatim>\<open>int(s)\<close> for a string: surrounding whitespace, an optional sign, decimal digits.\<close>

definition int_of_str :: "string \<Rightarrow> int option" where
  "int_of_str s =
     (case py_strip s of
        [] \<Rightarrow> None
      | c # cs \<Rightarrow>
          if c = CHR ''-'' then map_option (\<lambda>n. - int n) (parse_nat cs)
          else if c = CHR ''+'' then map_option int (parse_nat cs)
          else map_option int (parse_nat (c # cs)))"

text \<open>\<^verbatim>\<open>int(x)\<close> for a float: rounding towards zero.\<close>

definition trunc_rat :: "rat \<Rightarrow> int" where
  "trunc_rat r = (if 0 \<le> r then \<lfloor>r\<rfloor> else \<lceil>r\<rceil>)"

text \<open>\<^verbatim>\<open>int(v)\<close>\<close>

fun py_int :: "pyval \<Rightarrow> pyerr + int" where
  "py_int (PInt i) = Inr i"
| "py_int (PBool b) = Inr (if b then 1 else 0)"
| "py_int (PFloat r) = Inr (trunc_rat r)"
| "py_int (PStr s) = (case int_of_str s of None \<Rightarrow> Inl ValueError | Some i \<Rightarrow> Inr i)"
| "py_int _ = Inl TypeError"

text \<open>\<^verbatim>\<open>float(v)\<close>\<close>

fun py_float :: "pybuiltins \<Rightarrow> pyval \<Rightarrow> pyerr + rat" where
  "py_float B (PFloat r) = Inr r"
| "py_float B (PInt i) = Inr (of_int i)"
| "py_float B (PBool b) = Inr (if b then 1 else 0)"
| "py_float B (PStr s) = (case float_of_str B s of None \<Rightarrow> Inl ValueError | Some r \<Rightarrow> Inr r)"
| "py_float B _ = Inl TypeError"

text \<open>\<^verbatim>\<open>str(v)\<close>\<close>

fun py_str :: "pybuiltins \<Rightarrow> pyval \<Rightarrow> string" where
  "py_str B (PStr s) = s"
| "py_str B v = repr_of B v"

text \<open>\<^verbatim>\<open>d.get(k, default)\<close>\<close>

definition dict_get :: "pydict \<Rightarrow> string \<Rightarrow> pyval \<Rightarrow> pyval" where
  "dict_get d k dflt = (case map_of d k of None \<Rightarrow> dflt | Some v \<Rightarrow> v)"

text \<open>
  Iterating over a value whose items are then used as strings (\<^verbatim>\<open>for tag in v\<close>): a list
  yields its entries, a string its characters, anything else is not iterable.
\<close>

fun py_iter :: "pyval \<Rightarrow> pyerr + string list" where
  "py_iter (PList xs) = Inr xs"
| "py_iter (PStr s) = Inr (map (\<lambda>c. [c]) s)"
| "py_iter _ = Inl TypeError"

text \<open>A list comprehension over a function that may raise: the first error wins.\<close>

fun map_err :: "('a \<Rightarrow> pyerr + 'b) \<Rightarrow> 'a list \<Rightarrow> pyerr + 'b list" where
  "map_err f [] = Inr []"
| "map_err f (x # xs) =
     (case f x of
        Inl e \<Rightarrow> Inl e
      | Inr y \<Rightarrow> (case map_err f xs of Inl e \<Rightarrow> Inl e | Inr ys \<Rightarrow> Inr (y # ys)))"

fun filter_err :: "('a \<Rightarrow> pyerr + bool) \<Rightarrow> 'a list \<Rightarrow> pyerr + 'a list" where
  "filter_err p [] = Inr []"
| "filter_err p (x # xs) =
     (case p x of
        Inl e \<Rightarrow> Inl e
      | Inr b \<Rightarrow>
          (case filter_err p xs of
             Inl e \<Rightarrow> Inl e
           | Inr ys \<Rightarrow> Inr (if b then x # ys else ys)))"


section \<open>Monster manager: file names\<close>

text \<open>
  \<^verbatim>\<open>re.sub(r'\s+', '-', name)\<close>: every maximal run of whitespace becomes one hyphen.
  The flag says whether the previous character belonged to a run already replaced.
\<close>

fun ws_to_hyphen :: "bool \<Rightarrow> string \<Rightarrow> string" where
  "ws_to_hyphen in_run [] = []"
| "ws_to_hyphen in_run (c # cs) =
     (if py_isspace c then (if in_run then ws_to_hyphen True cs else CHR ''-'' # ws_to_hyphen True cs)
      else c # ws_to_hyphen False cs)"

definition sanitize_filename :: "string \<Rightarrow> string" where
  "sanitize_filename name =
     (let name1 = filter (\<lambda>c. is_word_char c \<or> py_isspace c \<or> c = CHR ''-'') name;
          name2 = ws_to_hyphen False name1
      in py_lower name2)"

definition MONSTER_DIR :: string where
  "MONSTER_DIR = ''www/data/monster''"

definition get_monster_path :: "string \<Rightarrow> string" where
  "get_monster_path name = MONSTER_DIR @ ''/'' @ sanitize_filename name @ ''.json''"

section \<open>Monster manager: filtering and sorting\<close>

text \<open>A bound of a range criterion: a float, possibly infinite.\<close>

datatype bound = NegInf | Fin rat | PosInf

fun bound_le :: "bound \<Rightarrow> bound \<Rightarrow> bool" where
  "bound_le NegInf _ = True"
| "bound_le _ PosInf = True"
| "bound_le (Fin a) (Fin b) = (a \<le> b)"
| "bound_le _ _ = False"

text \<open>
  An entry of \<^verbatim>\<open>self.filter_criteria\<close>: the empty dict, or a dict whose \<^verbatim>\<open>'type'\<close> is
  \<^verbatim>\<open>'range'\<close> (with \<^verbatim>\<open>'min'\<close>, \<^verbatim>\<open>'max'\<close>), \<^verbatim>\<open>'contains'\<close> or \<^verbatim>\<open>'equals'\<close> (with \<^verbatim>\<open>'value'\<close>).
\<close>

datatype criterion =
    NoCriterion
  | Range bound bound
  | Contains string
  | Equals pyval

text \<open>The attributes of the window that \<^verbatim>\<open>apply_filters_and_sort\<close> reads.\<close>

record filter_settings =
  search_var :: string
  filter_criteria :: "(string \<times> criterion) list"
  sort_column :: string
  sort_reverse :: bool

text \<open>
  The variable \<^verbatim>\<open>filtered\<close> refers either to the list object the caller passed in
  (\<^verbatim>\<open>filtered = monsters\<close>) or to a list built inside the call.
\<close>

datatype 'a listref = CallerList | NewList "'a list"

fun deref :: "'a list \<Rightarrow> 'a listref \<Rightarrow> 'a list" where
  "deref monsters CallerList = monsters"
| "deref monsters (NewList xs) = xs"

text \<open>The texts of one monster that the quick search looks at.\<close>

definition searchable :: "pybuiltins \<Rightarrow> pydict \<Rightarrow> pyerr + string list" where
  "searchable B monster =
     (let texts = map (\<lambda>field. py_lower (py_str B (dict_get monster field (PStr []))))
                      [''name'', ''type'', ''alignment'']
      in case map_of monster ''tags'' of
           None \<Rightarrow> Inr texts
         | Some tags \<Rightarrow>
             (case py_iter tags of
                Inl e \<Rightarrow> Inl e
              | Inr ts \<Rightarrow> Inr (texts @ map py_lower ts)))"

text \<open>The loop \<^verbatim>\<open>for monster in monsters\<close> of the quick search, appending to \<open>filtered\<close>.\<close>

fun quick_search :: "pybuiltins \<Rightarrow> string \<Rightarrow> pydict list \<Rightarrow> pydict list \<Rightarrow> pyerr + pydict list" where
  "quick_search B search_query [] filtered = Inr filtered"
| "quick_search B search_query (monster # rest) filtered =
     (case searchable B monster of
        Inl e \<Rightarrow> Inl e
      | Inr texts \<Rightarrow>
          quick_search B search_query rest
            (if list_ex (\<lambda>text. str_contains search_query text) texts
             then filtered @ [monster] else filtered))"

text \<open>\<^verbatim>\<open>min_val <= m.get(field, 0) <= max_val\<close>; ordering a float with a non-number raises.\<close>

definition in_range :: "bound \<Rightarrow> bound \<Rightarrow> string \<Rightarrow> pydict \<Rightarrow> pyerr + bool" where
  "in_range min_val max_val field m =
     (case py_num (dict_get m field (PInt 0)) of
        None \<Rightarrow> Inl TypeError
      | Some v \<Rightarrow> Inr (bound_le min_val (Fin v) \<and> bound_le (Fin v) max_val))"

text \<open>One round of the loop over \<^verbatim>\<open>self.filter_criteria.items()\<close>.\<close>

fun apply_criterion ::
  "pybuiltins \<Rightarrow> pydict list \<Rightarrow> string \<Rightarrow> criterion \<Rightarrow> pydict listref \<Rightarrow> pyerr + pydict listref" where
  "apply_criterion B monsters field NoCriterion filtered = Inr filtered"
| "apply_criterion B monsters field (Range min_val max_val) filtered =
     (case filter_err (in_range min_val max_val field) (deref monsters filtered) of
        Inl e \<Rightarrow> Inl e
      | Inr xs \<Rightarrow> Inr (NewList xs))"
| "apply_criterion B monsters field (Contains v) filtered =
     (let value = py_lower v
      in Inr (NewList (filter (\<lambda>m. str_contains value (py_lower (py_str B (dict_get m field (PStr [])))))
                              (deref monsters filtered))))"
| "apply_criterion B monsters field (Equals value) filtered =
     Inr (NewList (filter (\<lambda>m. py_eq (dict_get m field PNone) value) (deref monsters filtered)))"

fun apply_criteria ::
  "pybuiltins \<Rightarrow> pydict list \<Rightarrow> (string \<times> criterion) list \<Rightarrow> pydict listref \<Rightarrow> pyerr + pydict listref" where
  "apply_criteria B monsters [] filtered = Inr filtered"
| "apply_criteria B monsters ((field, criteria) # rest) filtered =
     (case apply_criterion B monsters field criteria filtered of
        Inl e \<Rightarrow> Inl e
      | Inr filtered' \<Rightarrow> apply_criteria B monsters rest filtered')"

text \<open>
  Sort keys.  Within one call all keys are numbers or all are strings, so the order between
  a number and a string is never consulted; strings compare by code point.
\<close>

datatype skey = KNum rat | KStr string

instantiation skey :: linorder
begin

fun less_eq_skey :: "skey \<Rightarrow> skey \<Rightarrow> bool" where
  "less_eq_skey (KNum a) (KNum b) = (a \<le> b)"
| "less_eq_skey (KStr s) (KStr t) = (s \<le> t)"
| "less_eq_skey (KNum a) (KStr t) = True"
| "less_eq_skey (KStr s) (KNum b) = False"

definition less_skey :: "skey \<Rightarrow> skey \<Rightarrow> bool" where
  "less_skey x y \<longleftrightarrow> x \<le> y \<and> \<not> y \<le> x"

instance
proof
  fix x y z :: skey
  show "x < y \<longleftrightarrow> x \<le> y \<and> \<not> y \<le> x" by (simp add: less_skey_def)
  show "x \<le> x" by (cases x) simp_all
  show "x \<le> y \<Longrightarrow> y \<le> z \<Longrightarrow> x \<le> z" by (cases x; cases y; cases z) auto
  show "x \<le> y \<Longrightarrow> y \<le> x \<Longrightarrow> x = y" by (cases x; cases y) auto
  show "x \<le> y \<or> y \<le> x" by (cases x; cases y) auto
qed

end

definition sortable_columns :: "string list" where
  "sortable_columns =
     [''name'', ''challenge_rating'', ''type'', ''size'', ''armor_class'', ''hit_points'', ''alignment'']"

text \<open>The nested function \<^verbatim>\<open>sort_key(monster)\<close>.\<close>

definition sort_key_py :: "pybuiltins \<Rightarrow> string \<Rightarrow> pydict \<Rightarrow> pyerr + skey" where
  "sort_key_py B column monster =
     (let value = dict_get monster column (PStr [])
      in if column = ''challenge_rating'' then
           (if value \<noteq> PStr [] then
              (case py_float B value of Inl e \<Rightarrow> Inl e | Inr r \<Rightarrow> Inr (KNum r))
            else Inr (KNum 0))
         else if column \<in> set [''armor_class'', ''hit_points''] then
           (if value \<noteq> PStr [] then
              (case py_int value of Inl e \<Rightarrow> Inl e | Inr i \<Rightarrow> Inr (KNum (of_int i)))
            else Inr (KNum 0))
         else Inr (KStr (py_lower (py_str B value))))"

text \<open>
  \<^verbatim>\<open>xs.sort(key=..., reverse=...)\<close> on precomputed keys.  The sort is stable; with
  \<^verbatim>\<open>reverse=True\<close> the list is reversed, sorted and reversed again, which keeps records
  with equal keys in their original order.
\<close>

definition stable_sort :: "bool \<Rightarrow> ('k::linorder \<times> 'a) list \<Rightarrow> ('k \<times> 'a) list" where
  "stable_sort reverse kxs =
     (if reverse then rev (sort_key fst (rev kxs)) else sort_key fst kxs)"

text \<open>All keys are computed before the list is touched; a key that raises leaves it as it was.\<close>

definition list_sort :: "('a \<Rightarrow> pyerr + skey) \<Rightarrow> bool \<Rightarrow> 'a list \<Rightarrow> pyerr + 'a list" where
  "list_sort key reverse xs =
     (case map_err key xs of
        Inl e \<Rightarrow> Inl e
      | Inr ks \<Rightarrow> Inr (map snd (stable_sort reverse (zip ks xs))))"

text \<open>
  \<^verbatim>\<open>MonsterManagerGUI.apply_filters_and_sort(monsters)\<close> in its three steps.  Each step
  yields what \<^verbatim>\<open>filtered\<close> refers to after it.
\<close>

definition search_step :: "pybuiltins \<Rightarrow> filter_settings \<Rightarrow> pydict list \<Rightarrow> pyerr + pydict listref" where
  "search_step B self monsters =
     (let search_query = py_lower (py_strip (search_var self))
      in if search_query \<noteq> [] then
           (case quick_search B search_query monsters [] of
              Inl e \<Rightarrow> Inl e
            | Inr xs \<Rightarrow> Inr (NewList xs))
         else Inr CallerList)"

text \<open>The contents of the list \<^verbatim>\<open>filtered\<close> after \<^verbatim>\<open>filtered.sort(...)\<close>, if it runs.\<close>

definition sort_step :: "pybuiltins \<Rightarrow> filter_settings \<Rightarrow> pydict list \<Rightarrow> pyerr + pydict list" where
  "sort_step B self xs =
     (if sort_column self \<noteq> [] \<and> sort_column self \<in> set sortable_columns
      then list_sort (sort_key_py B (sort_column self)) (sort_reverse self) xs
      else Inr xs)"

text \<open>
  The result pairs the contents of the caller's list after the call with the reference that
  is returned: the sort works in place on whatever list \<^verbatim>\<open>filtered\<close> names.
\<close>

definition apply_filters_and_sort ::
  "pybuiltins \<Rightarrow> filter_settings \<Rightarrow> pydict list \<Rightarrow> pyerr + (pydict list \<times> pydict listref)" where
  "apply_filters_and_sort B self monsters =
     (case search_step B self monsters of
        Inl e \<Rightarrow> Inl e
      | Inr filtered1 \<Rightarrow>
          (case apply_criteria B monsters (filter_criteria self) filtered1 of
             Inl e \<Rightarrow> Inl e
           | Inr filtered2 \<Rightarrow>
               (case sort_step B self (deref monsters filtered2) of
                  Inl e \<Rightarrow> Inl e
                | Inr ordered \<Rightarrow>
                    (case filtered2 of
                       CallerList \<Rightarrow> Inr (ordered, CallerList)
                     | NewList _ \<Rightarrow> Inr (monsters, NewList ordered)))))"

text \<open>What the returned reference holds once the call is over.\<close>

definition returned_list :: "pydict list \<times> pydict listref \<Rightarrow> pydict list" where
  "returned_list r = deref (fst r) (snd r)"


section \<open>Monster manager: bulk edit and saving\<close>

text \<open>
  Monster dicts are shared objects: the same dict can be reached from
  \<^verbatim>\<open>self.monsters_data\<close> and from \<^verbatim>\<open>self.selected_monsters\<close>.  The state therefore
  holds the dicts in a store indexed by object identity, and the two lists hold identities.
  \<open>disk\<close> maps the path of each file written to the JSON object in it.
\<close>

record gui =
  objs :: "nat \<Rightarrow> pydict"
  monsters_data :: "nat list"
  selected_monsters :: "nat list"
  disk :: "(string \<times> pydict) list"

text \<open>\<^verbatim>\<open>max(max_id, x)\<close>, where \<open>max_id\<close> is a number: the first maximum is returned.\<close>

definition py_max :: "pyval \<Rightarrow> pyval \<Rightarrow> pyerr + pyval" where
  "py_max a b =
     (case (py_num a, py_num b) of
        (Some x, Some y) \<Rightarrow> Inr (if x < y then b else a)
      | _ \<Rightarrow> Inl TypeError)"

text \<open>\<^verbatim>\<open>v + 1\<close> for a number.\<close>

fun py_succ :: "pybuiltins \<Rightarrow> pyval \<Rightarrow> pyerr + pyval" where
  "py_succ B (PInt i) = Inr (PInt (i + 1))"
| "py_succ B (PBool b) = Inr (PInt ((if b then 1 else 0) + 1))"
| "py_succ B (PFloat r) = Inr (PFloat (float_add B r 1))"
| "py_succ B _ = Inl TypeError"

text \<open>The loop \<^verbatim>\<open>for monster in self.monsters_data: max_id = max(max_id, monster.get('id', 0))\<close>.\<close>

fun max_id_loop :: "pydict list \<Rightarrow> pyval \<Rightarrow> pyerr + pyval" where
  "max_id_loop [] max_id = Inr max_id"
| "max_id_loop (monster # rest) max_id =
     (case py_max max_id (dict_get monster ''id'' (PInt 0)) of
        Inl e \<Rightarrow> Inl e
      | Inr m \<Rightarrow> max_id_loop rest m)"

text \<open>The dict that is written: no \<^verbatim>\<open>filename\<close>, and no \<^verbatim>\<open>tags\<close> when they are empty.\<close>

definition clean_data :: "pydict \<Rightarrow> pydict" where
  "clean_data monster_data =
     (let clean = filter (\<lambda>(k, v). k \<noteq> ''filename'') monster_data
      in case map_of clean ''tags'' of
           None \<Rightarrow> clean
         | Some tags \<Rightarrow> if py_falsy tags then AList.delete ''tags'' clean else clean)"

text \<open>
  \<^verbatim>\<open>MonsterManagerGUI.save_monster(monster_data)\<close> for the dict with identity \<open>a\<close>.  Every
  exception is caught inside (an error box is shown), so the call itself never raises; an
  id assigned before the exception stays assigned.  Writing the file is taken to succeed.
\<close>

definition save_monster :: "pybuiltins \<Rightarrow> gui \<Rightarrow> nat \<Rightarrow> gui" where
  "save_monster B st a =
     (case (if map_of (objs st a) ''id'' = None
            then (case max_id_loop (map (objs st) (monsters_data st)) (PInt 0) of
                    Inl e \<Rightarrow> Inl e
                  | Inr max_id \<Rightarrow>
                      (case py_succ B max_id of
                         Inl e \<Rightarrow> Inl e
                       | Inr i \<Rightarrow> Inr (st\<lparr>objs := (objs st)(a := AList.update ''id'' i (objs st a))\<rparr>)))
            else Inr st) of
        Inl e \<Rightarrow> st
      | Inr st1 \<Rightarrow>
          (case map_of (objs st1 a) ''name'' of
             Some (PStr name) \<Rightarrow>
               st1\<lparr>disk := AList.update (get_monster_path name) (clean_data (objs st1 a)) (disk st1)\<rparr>
           | _ \<Rightarrow> st1))"

text \<open>\<^verbatim>\<open>[tag.strip() for tag in value.split(',') if tag.strip()]\<close>\<close>

definition parse_tags :: "string \<Rightarrow> string list" where
  "parse_tags value = filter (\<lambda>t. t \<noteq> []) (map py_strip (py_split (CHR '','') value))"

text \<open>
  \<^verbatim>\<open>list(set(xs))\<close>: the entries of \<open>xs\<close> without repetition.  Python leaves the order
  of the result open; statements about it speak of its set of entries only.
\<close>

definition list_of_set :: "string list \<Rightarrow> string list" where
  "list_of_set xs = remdups xs"

text \<open>
  The body of \<^verbatim>\<open>for field, value in changes.items()\<close> in \<^verbatim>\<open>apply_bulk_changes\<close>, on the
  pair of the monster and the flag \<^verbatim>\<open>modified\<close>.
\<close>

fun apply_change :: "string \<times> pyval \<Rightarrow> pydict \<times> bool \<Rightarrow> pyerr + pydict \<times> bool" where
  "apply_change (field, value) (monster, modified) =
     (if value \<noteq> PNone \<and> value \<noteq> PStr [] then
        (case (field = ''tags'', value) of
           (True, PStr s) \<Rightarrow>
             (case dict_get monster ''tags'' (PList []) of
                PList existing_tags \<Rightarrow>
                  (let new_tags = parse_tags s;
                       all_tags = list_of_set (existing_tags @ new_tags)
                   in Inr (if all_tags \<noteq> [] then AList.update ''tags'' (PList all_tags) monster
                           else monster, True))
              | _ \<Rightarrow> Inl TypeError)
         | _ \<Rightarrow> Inr (AList.update field value monster, True))
      else Inr (monster, modified))"

fun apply_change_list :: "(string \<times> pyval) list \<Rightarrow> pydict \<times> bool \<Rightarrow> pyerr + pydict \<times> bool" where
  "apply_change_list [] mm = Inr mm"
| "apply_change_list (ch # rest) mm =
     (case apply_change ch mm of
        Inl e \<Rightarrow> Inl e
      | Inr mm' \<Rightarrow> apply_change_list rest mm')"

text \<open>
  The loop \<^verbatim>\<open>for monster in self.selected_monsters\<close> with its counter \<^verbatim>\<open>count\<close>.  When a change
  raises, the call is abandoned with that error.
\<close>

fun bulk_loop ::
  "pybuiltins \<Rightarrow> (string \<times> pyval) list \<Rightarrow> nat list \<Rightarrow> gui \<times> nat \<Rightarrow> pyerr + gui \<times> nat" where
  "bulk_loop B changes [] (st, cnt) = Inr (st, cnt)"
| "bulk_loop B changes (a # rest) (st, cnt) =
     (case apply_change_list changes (objs st a, False) of
        Inl e \<Rightarrow> Inl e
      | Inr (monster, modified) \<Rightarrow>
          (let st1 = st\<lparr>objs := (objs st)(a := monster)\<rparr>
           in if modified then bulk_loop B changes rest (save_monster B st1 a, cnt + 1)
              else bulk_loop B changes rest (st1, cnt)))"

text \<open>
  \<^verbatim>\<open>MonsterManagerGUI.apply_bulk_changes(changes)\<close>: the state when the loop is over and
  the count shown in the success box.
\<close>

definition apply_bulk_changes ::
  "pybuiltins \<Rightarrow> gui \<Rightarrow> (string \<times> pyval) list \<Rightarrow> pyerr + gui \<times> nat" where
  "apply_bulk_changes B st changes = bulk_loop B changes (selected_monsters st) (st, 0)"




section \<open>Item editor\<close>

text \<open>\<^verbatim>\<open>AdvancedItemEditor.gp_to_cp\<close> on a float.\<close>

definition gp_to_cp :: "pybuiltins \<Rightarrow> rat \<Rightarrow> int" where
  "gp_to_cp B gp_value =
     (let gp = (if gp_value \<noteq> 0 then gp_value else 0)
      in trunc_rat (float_mul B gp 100))"

text \<open>
  The value that \<^verbatim>\<open>apply_bulk_edit\<close> assigns to \<open>field\<close> for the text \<open>new_value\<close>;
  \<open>None\<close> where the conversion raises ValueError and the loop goes on to the next item.
\<close>

definition bulk_value :: "pybuiltins \<Rightarrow> string \<Rightarrow> string \<Rightarrow> pyval option" where
  "bulk_value B field new_value =
     (if field = ''price'' \<and> new_value \<noteq> [] then
        map_option (\<lambda>gp. PInt (gp_to_cp B gp)) (float_of_str B new_value)
      else if field \<in> set [''weight'', ''stack''] \<and> new_value \<noteq> [] then
        (if field = ''weight'' then map_option PFloat (float_of_str B new_value)
         else map_option PInt (int_of_str new_value))
      else if py_lower new_value \<in> set [''none'', ''null'', []] then Some PNone
      else Some (PStr new_value))"

text \<open>The loop \<^verbatim>\<open>for key in selected_keys\<close> for one field.\<close>

fun bulk_set_keys ::
  "pybuiltins \<Rightarrow> string \<Rightarrow> string \<Rightarrow> string list \<Rightarrow> (string \<times> pydict) list \<Rightarrow> pyerr + (string \<times> pydict) list" where
  "bulk_set_keys B field new_value [] items = Inr items"
| "bulk_set_keys B field new_value (key # rest) items =
     (case bulk_value B field new_value of
        None \<Rightarrow> bulk_set_keys B field new_value rest items
      | Some v \<Rightarrow>
          (case map_of items key of
             None \<Rightarrow> Inl KeyError
           | Some item \<Rightarrow>
               bulk_set_keys B field new_value rest
                 (AList.update key (AList.update field v item) items)))"

text \<open>
  \<^verbatim>\<open>apply_bulk_edit\<close> inside \<^verbatim>\<open>AdvancedItemEditor.bulk_edit_dialog\<close>.  Each entry of the
  form is a field, the state of its checkbox and the text of its widget.  The result is the
  item table and \<^verbatim>\<open>changes_made\<close>.
\<close>

fun apply_bulk_edit ::
  "pybuiltins \<Rightarrow> string list \<Rightarrow> (string \<times> bool \<times> string) list \<Rightarrow> (string \<times> pydict) list \<times> nat
     \<Rightarrow> pyerr + (string \<times> pydict) list \<times> nat" where
  "apply_bulk_edit B selected_keys [] (items, changes_made) = Inr (items, changes_made)"
| "apply_bulk_edit B selected_keys ((field, checked, text) # rest) (items, changes_made) =
     (if checked then
        (case bulk_set_keys B field (py_strip text) selected_keys items of
           Inl e \<Rightarrow> Inl e
         | Inr items' \<Rightarrow> apply_bulk_edit B selected_keys rest (items', changes_made + 1))
      else apply_bulk_edit B selected_keys rest (items, changes_made))"







section \<open>A reference instance of the builtins\<close>

text \<open>
  Used to run the model on concrete inputs.  \<open>dec_float\<close> reads a decimal literal without
  exponent exactly; sums and products are exact; \<open>plain_repr\<close> prints \<^verbatim>\<open>None\<close>,
  \<^verbatim>\<open>True\<close> and \<^verbatim>\<open>False\<close> (no other value is printed in the evaluations below).
\<close>

definition unsigned_dec :: "string \<Rightarrow> rat option" where
  "unsigned_dec s =
     (let ip = takeWhile (\<lambda>c. c \<noteq> CHR ''.'') s;
          fp = drop 1 (dropWhile (\<lambda>c. c \<noteq> CHR ''.'') s)
      in if ip = [] \<and> fp = [] then None
         else case (digits_val 0 ip, digits_val 0 fp) of
                (Some a, Some b) \<Rightarrow> Some (of_nat a + of_nat b / 10 ^ length fp)
              | _ \<Rightarrow> None)"

definition dec_float :: "string \<Rightarrow> rat option" where
  "dec_float s =
     (case py_strip s of
        [] \<Rightarrow> None
      | c # cs \<Rightarrow>
          if c = CHR ''-'' then map_option uminus (unsigned_dec cs)
          else if c = CHR ''+'' then unsigned_dec cs
          else unsigned_dec (c # cs))"

fun plain_repr :: "pyval \<Rightarrow> string" where
  "plain_repr PNone = ''None''"
| "plain_repr (PBool b) = (if b then ''True'' else ''False'')"
| "plain_repr _ = []"

definition ref_builtins :: pybuiltins where
  "ref_builtins =
     \<lparr>float_of_str = dec_float, repr_of = plain_repr, float_add = (\<lambda>x y. x + y),
      float_mul = (\<lambda>x y. x * y)\<rparr>"


section \<open>Notions used in the statements\<close>


text \<open>
  The value of a record at a field as a range criterion compares it: 0 for a missing
  field, no number at all for a value that is not one.
\<close>

definition value_or_zero :: "pydict \<Rightarrow> string \<Rightarrow> rat option" where
  "value_or_zero m field = (case map_of m field of None \<Rightarrow> Some 0 | Some v \<Rightarrow> py_num v)"












text \<open>A new value that makes a bulk change apply: neither null nor the empty string.\<close>

definition active :: "pyval \<Rightarrow> bool" where
  "active v \<longleftrightarrow> v \<noteq> PNone \<and> v \<noteq> PStr []"




section \<open>Concrete inputs\<close>

definition no_filters :: "string \<Rightarrow> bool \<Rightarrow> filter_settings" where
  "no_filters column reverse =
     \<lparr>search_var = [], filter_criteria = [], sort_column = column, sort_reverse = reverse\<rparr>"

definition zebra :: pydict where
  "zebra = [(''name'', PStr ''Zebra'')]"

definition ant :: pydict where
  "ant = [(''name'', PStr ''Ant'')]"

definition goblin :: pydict where
  "goblin = [(''name'', PStr ''Goblin''), (''challenge_rating'', PFloat (1 / 4))]"

definition dragon :: pydict where
  "dragon = [(''name'', PStr ''Dragon''), (''challenge_rating'', PInt 24)]"

definition rat :: pydict where
  "rat = [(''name'', PStr ''Rat''), (''challenge_rating'', PInt 0)]"

definition imp :: pydict where
  "imp = [(''name'', PStr ''Imp''), (''challenge_rating'', PInt (- 1))]"

definition ghost :: pydict where
  "ghost = [(''name'', PStr ''Ghost'')]"

definition only_criterion :: "string \<Rightarrow> criterion \<Rightarrow> filter_settings" where
  "only_criterion field c =
     \<lparr>search_var = [], filter_criteria = [(field, c)], sort_column = [], sort_reverse = False\<rparr>"









text \<open>A window whose only monster, selected, is the given dict.\<close>

definition single :: "pydict \<Rightarrow> gui" where
  "single m = \<lparr>objs = (\<lambda>a. m), monsters_data = [0], selected_monsters = [0], disk = []\<rparr>"


definition lone :: pydict where
  "lone = [(''id'', PInt 1), (''name'', PStr ''Wolf''), (''type'', PStr ''beast'')]"

definition relic :: pydict where
  "relic = [(''name'', PStr ''Sword''), (''price'', PInt 100), (''rarity'', PStr ''common''),
            (''weight'', PInt 3)]"

text \<open>
  The form of the item editor's bulk edit dialog for Sword: one entry per field, in sorted
  order, with the checkbox and the text of each.
\<close>

definition relic_form :: "bool \<times> string \<Rightarrow> bool \<times> string \<Rightarrow> bool \<times> string \<Rightarrow> (string \<times> bool \<times> string) list" where
  "relic_form price rarity weight =
     [(''name'', False, []), (''price'', price), (''rarity'', rarity), (''weight'', weight)]"


section \<open>Filtering and sorting: the caller's list\<close>

text \<open>
  C1 (\<^verbatim>\<open>apply_filters_and_sort\<close> returns a new sequence and leaves the list it was
  given as it was) fails on the code.  With an empty search box and no active criterion the variable
  \<^verbatim>\<open>filtered\<close> still names the caller's list when \<^verbatim>\<open>filtered.sort(...)\<close> runs: on
  the list Zebra, Ant, sorted by name, the caller's list becomes Ant, Zebra, and the list
  returned is that same object.
\<close>

theorem apply_filters_and_sort_reorders_input:
  "apply_filters_and_sort ref_builtins (no_filters ''name'' False) [zebra, ant]
     = Inr ([ant, zebra], CallerList)"
  by code_simp

text \<open>
  When the list is touched and when it is not: \<^verbatim>\<open>filtered\<close> names the caller's list
  exactly as long as no search query and no active criterion has replaced it.
\<close>

lemma search_step_caller_list:
  "search_step B self monsters = Inr r \<Longrightarrow>
   r = CallerList \<longleftrightarrow> py_lower (py_strip (search_var self)) = []"
  by (auto simp: search_step_def Let_def split: if_splits sum.splits)

lemma apply_criterion_caller_list:
  "apply_criterion B monsters field c r = Inr r' \<Longrightarrow>
   r' = CallerList \<longleftrightarrow> r = CallerList \<and> c = NoCriterion"
  by (cases c) (auto split: sum.splits)

lemma apply_criteria_caller_list:
  "apply_criteria B monsters cs r = Inr r' \<Longrightarrow>
   r' = CallerList \<longleftrightarrow> r = CallerList \<and> (\<forall>(field, c) \<in> set cs. c = NoCriterion)"
proof (induction cs arbitrary: r)
  case Nil
  then show ?case by auto
next
  case (Cons fc cs)
  obtain field c where fc: "fc = (field, c)" by (cases fc)
  from Cons.prems fc obtain r1 where
    1: "apply_criterion B monsters field c r = Inr r1"
    and 2: "apply_criteria B monsters cs r1 = Inr r'"
    by (auto split: sum.splits)
  from apply_criterion_caller_list [OF 1] Cons.IH [OF 2] fc show ?case by auto
qed

lemma apply_keeps_input_when_filtered:
  assumes "apply_filters_and_sort B self monsters = Inr (after, r)"
    and "py_lower (py_strip (search_var self)) \<noteq> []
         \<or> (\<exists>(field, c) \<in> set (filter_criteria self). c \<noteq> NoCriterion)"
  shows "after = monsters \<and> r \<noteq> CallerList"
proof -
  from assms(1) obtain r1 r2 out where
    1: "search_step B self monsters = Inr r1"
    and 2: "apply_criteria B monsters (filter_criteria self) r1 = Inr r2"
    and 3: "sort_step B self (deref monsters r2) = Inr out"
    by (auto simp: apply_filters_and_sort_def split: sum.splits)
  from search_step_caller_list [OF 1] apply_criteria_caller_list [OF 2] assms(2)
  have "r2 \<noteq> CallerList" by auto
  with assms(1) 1 2 3 show ?thesis
    by (cases r2) (auto simp: apply_filters_and_sort_def)
qed

lemma apply_sorts_input_when_unfiltered:
  assumes "py_lower (py_strip (search_var self)) = []"
    and "\<forall>(field, c) \<in> set (filter_criteria self). c = NoCriterion"
  shows "apply_filters_and_sort B self monsters
           = (case sort_step B self monsters of
                Inl e \<Rightarrow> Inl e
              | Inr out \<Rightarrow> Inr (out, CallerList))"
proof -
  have 1: "search_step B self monsters = Inr CallerList"
    using assms(1) by (simp add: search_step_def)
  have "apply_criteria B monsters cs CallerList = Inr CallerList"
    if "\<forall>(field, c) \<in> set cs. c = NoCriterion" for cs
    using that by (induction cs) auto
  with assms(2) have 2: "apply_criteria B monsters (filter_criteria self) CallerList = Inr CallerList"
    by blast
  show ?thesis
    by (simp add: apply_filters_and_sort_def 1 2 split: sum.splits)
qed

text \<open>The list that is returned is the outcome of the three steps in turn.\<close>

lemma apply_is_three_steps:
  "apply_filters_and_sort B self monsters = Inr res \<longleftrightarrow>
     (\<exists>r1 r2 out. search_step B self monsters = Inr r1
        \<and> apply_criteria B monsters (filter_criteria self) r1 = Inr r2
        \<and> sort_step B self (deref monsters r2) = Inr out
        \<and> returned_list res = out
        \<and> res = (case r2 of CallerList \<Rightarrow> (out, CallerList) | NewList _ \<Rightarrow> (monsters, NewList out)))"
  by (auto simp: apply_filters_and_sort_def returned_list_def split: sum.splits listref.splits)

text \<open>
  The scenario of the specification at the level of the whole call: no search, no criterion,
  challenge rating descending.
\<close>

lemma apply_scenario:
  "map_sum id returned_list
     (apply_filters_and_sort ref_builtins (no_filters ''challenge_rating'' True) [goblin, dragon, rat])
     = Inr [dragon, goblin, rat]"
  by code_simp

section \<open>The sort step\<close>


















section \<open>The range criterion\<close>

lemma filter_err_total:
  "(\<forall>x \<in> set xs. \<exists>b. p x = Inr b) \<Longrightarrow> filter_err p xs = Inr (filter (\<lambda>x. p x = Inr True) xs)"
  by (induction xs) auto

lemma filter_err_raises:
  "(\<forall>x \<in> set xs. \<forall>e'. p x = Inl e' \<longrightarrow> e' = e) \<Longrightarrow> (\<exists>x \<in> set xs. p x = Inl e) \<Longrightarrow>
   filter_err p xs = Inl e"
proof (induction xs)
  case Nil
  then show ?case by simp
next
  case (Cons x xs)
  show ?case
  proof (cases "p x")
    case (Inl e')
    with Cons.prems show ?thesis by simp
  next
    case (Inr b)
    with Cons.prems have "\<exists>y \<in> set xs. p y = Inl e" by auto
    with Cons have "filter_err p xs = Inl e" by simp
    with Inr show ?thesis by simp
  qed
qed

lemma in_range_value:
  "in_range lo hi field m =
     (case value_or_zero m field of
        None \<Rightarrow> Inl TypeError
      | Some v \<Rightarrow> Inr (bound_le lo (Fin v) \<and> bound_le (Fin v) hi))"
  by (simp add: in_range_def value_or_zero_def dict_get_def split: option.splits)

lemma range_keeps:
  assumes "\<forall>m \<in> set (deref monsters filtered). value_or_zero m field \<noteq> None"
  shows "apply_criterion B monsters field (Range lo hi) filtered
           = Inr (NewList (filter (\<lambda>m. \<exists>v. value_or_zero m field = Some v
                                          \<and> bound_le lo (Fin v) \<and> bound_le (Fin v) hi)
                                  (deref monsters filtered)))"
proof -
  let ?xs = "deref monsters filtered"
  have tot: "\<forall>m \<in> set ?xs. \<exists>b. in_range lo hi field m = Inr b"
    using assms by (auto simp: in_range_value)
  have "filter (\<lambda>m. in_range lo hi field m = Inr True) ?xs
          = filter (\<lambda>m. \<exists>v. value_or_zero m field = Some v
                           \<and> bound_le lo (Fin v) \<and> bound_le (Fin v) hi) ?xs"
    using assms by (intro filter_cong) (auto simp: in_range_value)
  with filter_err_total [OF tot] show ?thesis by simp
qed

lemma range_raises:
  assumes "\<exists>m \<in> set (deref monsters filtered). value_or_zero m field = None"
  shows "apply_criterion B monsters field (Range lo hi) filtered = Inl TypeError"
proof -
  have "filter_err (in_range lo hi field) (deref monsters filtered) = Inl TypeError"
  proof (rule filter_err_raises)
    show "\<forall>x \<in> set (deref monsters filtered). \<forall>e'. in_range lo hi field x = Inl e' \<longrightarrow> e' = TypeError"
      by (auto simp: in_range_value split: option.splits)
    from assms obtain m where "m \<in> set (deref monsters filtered)" "value_or_zero m field = None"
      by blast
    then have "in_range lo hi field m = Inl TypeError"
      by (simp add: in_range_value)
    with \<open>m \<in> set (deref monsters filtered)\<close>
    show "\<exists>x \<in> set (deref monsters filtered). in_range lo hi field x = Inl TypeError"
      by blast
  qed
  then show ?thesis by simp
qed

lemma range_from_zero:
  assumes "\<forall>m \<in> set (deref monsters filtered). \<exists>v. value_or_zero m field = Some v \<and> 0 \<le> v"
  shows "apply_criterion B monsters field (Range (Fin 0) PosInf) filtered
           = Inr (NewList (deref monsters filtered))"
proof -
  have "\<forall>m \<in> set (deref monsters filtered). value_or_zero m field \<noteq> None"
    using assms by auto
  from range_keeps [OF this, of B "Fin 0" PosInf]
  show ?thesis using assms by (simp cong: filter_cong)
qed

text \<open>
  C5, as the code has it.  A range criterion raises TypeError when some record holds a
  value that is not a number at the field; otherwise it keeps exactly the records with
  \<open>min \<le> v \<le> max\<close>, where \<open>v\<close> is 0 for a record without the field.  With \<open>min = 0\<close> and
  \<open>max = \<infinity>\<close> it keeps every record whose value is missing or not negative.
\<close>

theorem range_criterion_spec:
  "((\<forall>m \<in> set (deref monsters filtered). value_or_zero m field \<noteq> None) \<longrightarrow>
      apply_criterion B monsters field (Range min_val max_val) filtered
        = Inr (NewList (filter (\<lambda>m. \<exists>v. value_or_zero m field = Some v
                                       \<and> bound_le min_val (Fin v) \<and> bound_le (Fin v) max_val)
                               (deref monsters filtered))))
   \<and> ((\<exists>m \<in> set (deref monsters filtered). value_or_zero m field = None) \<longrightarrow>
      apply_criterion B monsters field (Range min_val max_val) filtered = Inl TypeError)
   \<and> ((\<forall>m \<in> set (deref monsters filtered). \<exists>v. value_or_zero m field = Some v \<and> 0 \<le> v) \<longrightarrow>
      apply_criterion B monsters field (Range (Fin 0) PosInf) filtered
        = Inr (NewList (deref monsters filtered)))
   \<and> (map_of m field = None \<longrightarrow> value_or_zero m field = Some 0)
   \<and> bound_le (Fin a) (Fin b) = (a \<le> b)"
  using range_keeps [of monsters filtered field B min_val max_val]
    range_raises [of monsters filtered field B min_val max_val]
    range_from_zero [of monsters filtered field B]
  by (simp add: value_or_zero_def)

text \<open>Goblin (0.25) and Ghost (no challenge rating) both pass the range from 0 upwards.\<close>

theorem range_criterion_spec_witness:
  "apply_criterion ref_builtins [goblin, ghost] ''challenge_rating'' (Range (Fin 0) PosInf) CallerList
     = Inr (NewList [goblin, ghost])"
proof -
  have "\<exists>v. value_or_zero goblin ''challenge_rating'' = Some v \<and> 0 \<le> v"
    by (rule exI [of _ "1 / 4"]) (simp add: value_or_zero_def goblin_def)
  moreover have "\<exists>v. value_or_zero ghost ''challenge_rating'' = Some v \<and> 0 \<le> v"
    by (rule exI [of _ 0]) (simp add: value_or_zero_def ghost_def)
  ultimately have "\<forall>m \<in> set (deref [goblin, ghost] CallerList).
          \<exists>v. value_or_zero m ''challenge_rating'' = Some v \<and> 0 \<le> v"
    by simp
  with range_criterion_spec [of "[goblin, ghost]" CallerList "''challenge_rating''" ref_builtins]
  show ?thesis by simp
qed

text \<open>
  C5 as stated fails: Imp has challenge rating -1, and the range from 0 to infinity drops it.
\<close>

theorem range_zero_inf_drops_negative:
  "apply_filters_and_sort ref_builtins (only_criterion ''challenge_rating'' (Range (Fin 0) PosInf)) [imp]
     = Inr ([imp], NewList [])"
  by code_simp

section \<open>Searching\<close>
















section \<open>When filtering and sorting raises\<close>











section \<open>Saving a monster\<close>













section \<open>Bulk changes in the monster manager\<close>








lemma apply_change_flag:
  "apply_change (f, v) (m, b) = Inr (m', b') \<Longrightarrow> b' = (b \<or> active v)"
  by (auto simp: active_def Let_def split: if_splits pyval.splits bool.splits)

lemma apply_change_list_flag:
  "apply_change_list changes (m, b) = Inr (m', b') \<Longrightarrow>
   b' = (b \<or> list_ex (\<lambda>(f, v). active v) changes)"
proof (induction changes arbitrary: m b)
  case Nil
  then show ?case by simp
next
  case (Cons ch changes)
  obtain f v where ch: "ch = (f, v)" by (cases ch)
  from Cons.prems ch obtain m1 b1 where
    1: "apply_change (f, v) (m, b) = Inr (m1, b1)"
    and 2: "apply_change_list changes (m1, b1) = Inr (m', b')"
    by (auto split: sum.splits)
  from apply_change_flag [OF 1] Cons.IH [OF 2] ch show ?case by auto
qed

lemma bulk_loop_count:
  "bulk_loop B changes as (st, n) = Inr (st', n') \<Longrightarrow>
   n' = n + (if list_ex (\<lambda>(f, v). active v) changes then length as else 0)"
proof (induction as arbitrary: st n)
  case Nil
  then show ?case by simp
next
  case (Cons a as)
  from Cons.prems obtain m b where
    1: "apply_change_list changes (objs st a, False) = Inr (m, b)"
    by (auto split: sum.splits)
  from apply_change_list_flag [OF 1] have b: "b = list_ex (\<lambda>(f, v). active v) changes"
    by simp
  show ?case
  proof (cases b)
    case True
    with Cons.prems 1 have
      "bulk_loop B changes as (save_monster B (st\<lparr>objs := (objs st)(a := m)\<rparr>) a, n + 1) = Inr (st', n')"
      by simp
    from Cons.IH [OF this] b True show ?thesis by simp
  next
    case False
    with Cons.prems 1 have
      "bulk_loop B changes as (st\<lparr>objs := (objs st)(a := m)\<rparr>, n) = Inr (st', n')"
      by simp
    from Cons.IH [OF this] b False show ?thesis by simp
  qed
qed














section \<open>Bulk edit in the item editor\<close>


lemma apply_bulk_edit_count:
  "apply_bulk_edit B keys form (items, n) = Inr (items', n') \<Longrightarrow>
   n' = n + length (filter (\<lambda>(f, c, t). c) form)"
proof (induction form arbitrary: items n)
  case Nil
  then show ?case by simp
next
  case (Cons x form)
  obtain f c t where x: "x = (f, c, t)" by (cases x)
  show ?case
  proof (cases c)
    case True
    with Cons.prems x obtain items1 where
      "apply_bulk_edit B keys form (items1, n + 1) = Inr (items', n')"
      by (auto split: sum.splits)
    from Cons.IH [OF this] x True show ?thesis by simp
  next
    case False
    with Cons.prems x have "apply_bulk_edit B keys form (items, n) = Inr (items', n')"
      by simp
    from Cons.IH [OF this] x False show ?thesis by simp
  qed
qed







section \<open>The bulk edit dialog of the monster manager\<close>






section \<open>Bulk edit: what the two editors do\<close>




text \<open>
  C4, as the code has it.  The monster manager counts a record as soon as one entry of
  \<^verbatim>\<open>changes\<close> is neither null nor empty, whether or not a value differs from the old one: the
  count is the number of selected records, or 0 when every entry is empty.  The item editor
  counts the ticked fields.
\<close>

theorem bulk_count_spec:
  "(apply_bulk_changes B st changes = Inr (st', n) \<longrightarrow>
      n = (if list_ex (\<lambda>(f, v). active v) changes then length (selected_monsters st) else 0))
   \<and> (apply_bulk_edit B keys form (items, 0) = Inr (items', k) \<longrightarrow>
      k = length (filter (\<lambda>(f, c, t). c) form))"
  using bulk_loop_count [of B changes "selected_monsters st" st 0 st' n]
    apply_bulk_edit_count [of B keys form items 0 items' k]
  by (simp add: apply_bulk_changes_def)

text \<open>Wolf, the only selected monster, under the change type = beast: the count is 1.\<close>

theorem bulk_count_spec_witness:
  "\<exists>st'. apply_bulk_changes ref_builtins (single lone) [(''type'', PStr ''beast'')] = Inr (st', 1)"
proof -
  let ?changes = "[(''type'', PStr ''beast'')]"
  have "\<not> isl (apply_bulk_changes ref_builtins (single lone) ?changes)"
    by code_simp
  then obtain st' n where run: "apply_bulk_changes ref_builtins (single lone) ?changes = Inr (st', n)"
    by (cases "apply_bulk_changes ref_builtins (single lone) ?changes") auto
  with bulk_count_spec [where B = ref_builtins and st = "single lone" and changes = ?changes
      and st' = st' and n = n]
  have "n = (if list_ex (\<lambda>(f, v). active v) ?changes then length (selected_monsters (single lone))
             else 0)"
    by blast
  then have "n = 1"
    by (simp add: active_def single_def)
  with run show ?thesis by blast
qed

text \<open>The record itself is what it was: Wolf already had type beast.\<close>

lemma bulk_counts_unchanged_record:
  "map_sum id (\<lambda>(st', n). (objs st' 0, n))
     (apply_bulk_changes ref_builtins (single lone) [(''type'', PStr ''beast'')])
     = Inr (lone, 1)"
  by code_simp

text \<open>
  C4 as stated fails in the item editor: one item, Sword, is selected, the fields rarity and
  weight are ticked (price is not), and the count is 2, the number of field changes.
\<close>

theorem item_bulk_edit_counts_fields:
  "apply_bulk_edit ref_builtins [''sword''] (relic_form (False, ''5'') (True, ''rare'') (True, ''2.5''))
      ([(''sword'', relic)], 0)
     = Inr ([(''sword'', [(''name'', PStr ''Sword''), (''price'', PInt 100), (''rarity'', PStr ''rare''),
                         (''weight'', PFloat (5 / 2))])], 2)"
  by code_simp






end
